theory Spec2Isabelle
  imports Complex_Main "HOL-Library.AList"
begin

section \<open>JavaScript values\<close>

text \<open>
  Both classes read a configuration that comes from JSON. A value of that configuration
  is one of the JSON values, or \<open>undefined\<close> for a field that is not there. Numbers are
  the finite numbers JSON can write; an object is the list of its own properties in
  enumeration order. Every such object inherits the members of \<open>Object.prototype\<close>. The
  code reads fixed names that are no member of it (\<open>length\<close>, the indices, \<open>type\<close>, \<open>args\<close>,
  the option names) and two names where the prototype chain decides: the method
  \<open>hasOwnProperty\<close> in line 115 and the name \<open>param\<close>, which the configuration chooses, in
  line 145.
\<close>

datatype jsval =
    JUndefined
  | JNull
  | JBool bool
  | JNum real
  | JStr string
  | JArr "jsval list"
  | JObj "(string \<times> jsval) list"

text \<open>A slot of reference type: \<open>undefined\<close>, \<open>null\<close>, or an object of the declared shape.\<close>

datatype 'a ref = Undefined | Null | Ref 'a

text \<open>
  What the code can throw: the engine's \<open>TypeError\<close> (a property read or write on
  \<open>undefined\<close> or \<open>null\<close>, a call of something that is no function), the \<open>Error\<close> of
  \<open>parseShaderPasses\<close> (its message is a function of \<open>args\<close>, which the value carries),
  and the strings \<open>FORGE.Media\<close> throws.
\<close>

datatype error =
    TypeError
  | CannotCreateColor jsval
  | Thrown string

definition bind :: "error + 'a \<Rightarrow> ('a \<Rightarrow> error + 'b) \<Rightarrow> error + 'b" where
  "bind r f = (case r of Inl e \<Rightarrow> Inl e | Inr x \<Rightarrow> f x)"

definition getprop :: "(string \<times> jsval) list \<Rightarrow> string \<Rightarrow> jsval" where
  "getprop fs k = (case map_of fs k of None \<Rightarrow> JUndefined | Some v \<Rightarrow> v)"

definition hasOwnProperty :: "(string \<times> jsval) list \<Rightarrow> string \<Rightarrow> bool" where
  "hasOwnProperty fs k = (map_of fs k \<noteq> None)"

text \<open>
  The names a plain object inherits from \<open>Object.prototype\<close>. A read of any of them on
  an object without an own property of that name gives an object: a function, or for
  \<open>__proto__\<close> the prototype itself.
\<close>

definition Object_prototype :: "string list" where
  "Object_prototype =
     [''constructor'', ''hasOwnProperty'', ''isPrototypeOf'', ''propertyIsEnumerable'',
      ''toLocaleString'', ''toString'', ''valueOf'', ''__proto__'',
      ''__defineGetter__'', ''__defineSetter__'', ''__lookupGetter__'', ''__lookupSetter__'']"

fun js_typeof :: "jsval \<Rightarrow> string" where
  "js_typeof JUndefined = ''undefined''"
| "js_typeof JNull = ''object''"
| "js_typeof (JBool b) = ''boolean''"
| "js_typeof (JNum n) = ''number''"
| "js_typeof (JStr s) = ''string''"
| "js_typeof (JArr xs) = ''object''"
| "js_typeof (JObj fs) = ''object''"

text \<open>The decimal spelling of an index, the property key \<open>v[i]\<close> reads on an object.\<close>

function string_of_nat :: "nat \<Rightarrow> string" where
  "string_of_nat n =
     (if n < 10 then [char_of (48 + n)]
      else string_of_nat (n div 10) @ [char_of (48 + n mod 10)])"
  by pat_completeness auto
termination
  by (relation "measure id") auto

declare string_of_nat.simps [simp del]

text \<open>\<open>v.length\<close>: a \<open>TypeError\<close> on \<open>undefined\<close> and \<open>null\<close>, \<open>undefined\<close> on a number or a boolean.\<close>

fun js_length :: "jsval \<Rightarrow> error + jsval" where
  "js_length JUndefined = Inl TypeError"
| "js_length JNull = Inl TypeError"
| "js_length (JBool b) = Inr JUndefined"
| "js_length (JNum n) = Inr JUndefined"
| "js_length (JStr s) = Inr (JNum (real (length s)))"
| "js_length (JArr xs) = Inr (JNum (real (length xs)))"
| "js_length (JObj fs) = Inr (getprop fs ''length'')"

text \<open>\<open>v[i]\<close>: out of range it is \<open>undefined\<close>; a string gives the one-character string.\<close>

fun js_at :: "jsval \<Rightarrow> nat \<Rightarrow> error + jsval" where
  "js_at JUndefined i = Inl TypeError"
| "js_at JNull i = Inl TypeError"
| "js_at (JBool b) i = Inr JUndefined"
| "js_at (JNum n) i = Inr JUndefined"
| "js_at (JStr s) i = Inr (if i < length s then JStr [s ! i] else JUndefined)"
| "js_at (JArr xs) i = Inr (if i < length xs then xs ! i else JUndefined)"
| "js_at (JObj fs) i = Inr (getprop fs (string_of_nat i))"

section \<open>FORGE.PostProcessing: parseShaderPasses\<close>

text \<open>
  An effect descriptor \<open>FX\<close>. \<open>fx_params\<close> lists the properties \<open>for (var param in
  fx.params)\<close> enumerates, in that order; a descriptor without \<open>params\<close> has the empty list
  (\<open>for ... in\<close> over \<open>undefined\<close> or \<open>null\<close> runs no iteration).
\<close>

record fx =
  fx_uid :: jsval
  fx_type :: string
  fx_params :: "(string \<times> jsval) list"

text \<open>
  The value written into a uniform: the declared value as it is, or the engine object one
  of the three constructor calls of the source builds. The engine's constructors are not
  interpreted: the value records the call.
\<close>

datatype uvalue =
    Raw jsval
  | THREE_Color3 jsval jsval jsval
  | THREE_Color1 jsval
  | THREE_Vector2 jsval jsval
  | THREE_Vector3 jsval jsval jsval

text \<open>
  \<open>pass.uniforms\<close>: a plain object; the list has its own properties, the uniform slots,
  each with the current content of its \<open>value\<close> field.
\<close>

type_synonym uniforms = "(string \<times> uvalue) list"

text \<open>
  Modelled from the spec: \<open>FORGE.ShaderPass\<close> and the \<open>THREE\<close> namespace are not under
  src/. A pipeline stage is "an engine-native shader/effect object plus its uid and
  resolved type name", which may or may not expose "a bindable parameter surface". The
  catalog gives, for each own property name of \<open>THREE\<close>, the uniforms a fresh
  \<open>FORGE.ShaderPass\<close> built on that entry exposes (\<open>None\<close>: \<open>pass.uniforms\<close> is undefined).
\<close>

type_synonym catalog = "string \<rightharpoonup> uniforms option"

record shader_pass =
  pass_uid :: jsval
  pass_type :: string
  pass_uniforms :: "uniforms option"

text \<open>
  Lines 111 to 143: the value of one parameter. \<open>paramValue.hasOwnProperty\<close> is the
  inherited method unless the object has an own property of that name; an own one holds
  a JSON value, and the call of it throws.
\<close>

definition build_value :: "jsval \<Rightarrow> error + uvalue" where
  "build_value paramValue =
     (case paramValue of
        JNull \<Rightarrow> Inl TypeError
      | JObj fs \<Rightarrow>
          if hasOwnProperty fs ''hasOwnProperty'' then Inl TypeError
          else if hasOwnProperty fs ''type'' \<and> hasOwnProperty fs ''args'' then
            (let args = getprop fs ''args''; ty = getprop fs ''type'' in
             if ty = JStr ''THREE.Color'' then
               bind (js_length args) (\<lambda>n.
                 if n = JNum 3 then
                   bind (js_at args 0) (\<lambda>a0.
                   bind (js_at args 1) (\<lambda>a1.
                   bind (js_at args 2) (\<lambda>a2.
                     Inr (THREE_Color3 a0 a1 a2))))
                 else if js_typeof args = ''string'' \<or> js_typeof args = ''number'' then
                   Inr (THREE_Color1 args)
                 else Inl (CannotCreateColor args))
             else if ty = JStr ''THREE.Vector2'' then
               bind (js_at args 0) (\<lambda>a0.
               bind (js_at args 1) (\<lambda>a1.
                 Inr (THREE_Vector2 a0 a1)))
             else if ty = JStr ''THREE.Vector3'' then
               bind (js_at args 0) (\<lambda>a0.
               bind (js_at args 1) (\<lambda>a1.
               bind (js_at args 2) (\<lambda>a2.
                 Inr (THREE_Vector3 a0 a1 a2))))
             else Inr (Raw paramValue))
          else Inr (Raw paramValue)
      | _ \<Rightarrow> Inr (Raw paramValue))"

text \<open>
  Line 145, \<open>pass.uniforms[param].value = value\<close>. The read \<open>pass.uniforms[param]\<close> finds
  the slot of that name; without one it finds the inherited member of that name, and
  the write goes to that object and leaves every slot as it was; without either it is
  \<open>undefined\<close>, and the write throws.
\<close>

definition bind_uniform :: "uniforms \<Rightarrow> string \<Rightarrow> uvalue \<Rightarrow> error + uniforms" where
  "bind_uniform us param v =
     (if map_of us param \<noteq> None then Inr (AList.update param v us)
      else if param \<in> set Object_prototype then Inr us
      else Inl TypeError)"

text \<open>Lines 109 to 146: the loop over the parameters.\<close>

fun params_loop :: "(string \<times> jsval) list \<Rightarrow> uniforms \<Rightarrow> error + uniforms" where
  "params_loop [] us = Inr us"
| "params_loop ((param, paramValue) # ps) us =
     bind (build_value paramValue) (\<lambda>v.
     bind (bind_uniform us param v) (\<lambda>us'.
       params_loop ps us'))"

text \<open>Lines 94 to 149, the body of the outer loop for a descriptor the catalog has.\<close>

definition compile_pass :: "uniforms option \<Rightarrow> fx \<Rightarrow> error + shader_pass" where
  "compile_pass shader f =
     (case shader of
        None \<Rightarrow> Inr \<lparr>pass_uid = fx_uid f, pass_type = fx_type f, pass_uniforms = None\<rparr>
      | Some us \<Rightarrow>
          bind (params_loop (fx_params f) us) (\<lambda>us'.
            Inr \<lparr>pass_uid = fx_uid f, pass_type = fx_type f, pass_uniforms = Some us'\<rparr>))"

definition warning :: "fx \<Rightarrow> string" where
  "warning f = ''Unknown image effect ('' @ fx_type f @ '')''"

text \<open>
  Lines 92 to 150: the loop over the descriptors. It returns the warnings logged so far
  with the outcome: the thrown error, or the passes.
\<close>

fun passes_loop ::
  "catalog \<Rightarrow> fx list \<Rightarrow> string list \<Rightarrow> shader_pass list \<Rightarrow> string list \<times> (error + shader_pass list)"
where
  "passes_loop THREE [] ws shaderPasses = (ws, Inr shaderPasses)"
| "passes_loop THREE (f # fs) ws shaderPasses =
     (case THREE (fx_type f) of
        None \<Rightarrow> passes_loop THREE fs (ws @ [warning f]) shaderPasses
      | Some shader \<Rightarrow>
          (case compile_pass shader f of
             Inl e \<Rightarrow> (ws, Inl e)
           | Inr pass \<Rightarrow> passes_loop THREE fs ws (shaderPasses @ [pass])))"

definition parseShaderPasses ::
  "catalog \<Rightarrow> fx list ref \<Rightarrow> string list \<times> (error + shader_pass list)"
where
  "parseShaderPasses THREE fxConfig =
     (case fxConfig of
        Undefined \<Rightarrow> ([], Inr [])
      | Null \<Rightarrow> ([], Inr [])
      | Ref fs \<Rightarrow> if length fs = 0 then ([], Inr []) else passes_loop THREE fs [] [])"

section \<open>FORGE.Media\<close>

text \<open>
  The media configuration \<open>SceneMediaConfig\<close>. \<open>source\<close> is a reference slot: the code
  tests it against \<open>undefined\<close> and against \<open>null\<close>. \<open>src_levels\<close> is \<open>Some\<close> of the levels
  when \<open>Array.isArray(source.levels)\<close> holds and \<open>None\<close> otherwise. The other fields are
  values the code passes on or compares.
\<close>

record level_config =
  lvl_device :: jsval
  lvl_url :: jsval

record source_config =
  src_url :: jsval
  src_levels :: "level_config list option"
  src_format :: jsval
  src_streaming :: jsval

record scene_media_config =
  cfg_uid :: jsval
  cfg_type :: jsval
  cfg_source :: "source_config ref"
  cfg_options :: jsval

text \<open>
  Modelled from the spec: the enumerations \<open>FORGE.MediaType\<close>, \<open>FORGE.MediaFormat\<close> and
  \<open>FORGE.VideoFormat\<close> are not under src/. The spec names the media types Image, Video,
  Grid and Undefined, the formats Equirectangular, Cube and Flat, and "the DASH protocol
  tag"; they are distinct string tags.
\<close>

definition MediaType_UNDEFINED :: jsval where "MediaType_UNDEFINED = JStr ''undefined''"
definition MediaType_GRID :: jsval where "MediaType_GRID = JStr ''grid''"
definition MediaType_IMAGE :: jsval where "MediaType_IMAGE = JStr ''image''"
definition MediaType_VIDEO :: jsval where "MediaType_VIDEO = JStr ''video''"

definition MediaFormat_EQUIRECTANGULAR :: jsval where "MediaFormat_EQUIRECTANGULAR = JStr ''equi''"
definition MediaFormat_CUBE :: jsval where "MediaFormat_CUBE = JStr ''cube''"
definition MediaFormat_FLAT :: jsval where "MediaFormat_FLAT = JStr ''flat''"

definition VideoFormat_DASH :: string where "VideoFormat_DASH = ''dash''"

text \<open>
  Modelled from the spec: the collaborators are not under src/. The device oracle is "a
  predicate \<open>supports(deviceTag) -> bool\<close>", the scene context gives \<open>hasSoundTarget(uid)
  -> bool\<close> and \<open>isAmbisonic() -> bool\<close>, and the page visibility oracle says whether the
  visibility state is "visible".
\<close>

record env =
  Device_check :: "jsval \<Rightarrow> bool"
  document_visible :: bool

record viewer =
  hasSoundTarget :: "jsval \<Rightarrow> bool"
  isAmbisonic :: bool

text \<open>
  Modelled from the spec: \<open>FORGE.Image\<close>, \<open>FORGE.VideoDash\<close>, \<open>FORGE.VideoHTML5\<close> and
  \<open>FORGE.EventDispatcher\<close> are not under src/. A playable source exposes \<open>load\<close>, \<open>play\<close>,
  \<open>destroy\<close>, mutable fields and "a one-shot load complete / metadata loaded signal". The
  display object records the constructor call that made it, the calls and field writes
  made on it since, and the handler \<open>addOnce\<close> registered on its signal, which is there
  until the signal fires. The dispatcher records how often \<open>dispatch\<close> was called.
\<close>

datatype display_new =
    FORGE_Image jsval jsval
  | FORGE_VideoDash jsval
  | FORGE_VideoHTML5 jsval bool

datatype display_call = Load jsval | Assign string jsval | Play

datatype handler = OnImageLoadComplete | OnLoadedMetaDataHandler

record display_object =
  do_new :: display_new
  do_calls :: "display_call list"
  do_listener :: "handler option"

record dispatcher =
  memorize :: bool
  dispatched :: nat

text \<open>
  The fields of a \<open>FORGE.Media\<close>. \<open>m_config\<close> is the content of the object \<open>this._config\<close>
  refers to. The caller's \<open>config\<close>, \<open>this._config\<close> and the parameter of \<open>_parseConfig\<close>
  are one object, and \<open>source\<close> is \<open>config.source\<close>: a write through any of them is a
  write to \<open>m_config\<close>.
\<close>

record media =
  m_viewer :: "viewer option"
  m_config :: "scene_media_config ref"
  m_uid :: jsval
  m_type :: jsval
  m_options :: jsval
  m_displayObject :: "display_object option"
  m_loaded :: bool
  m_onLoadComplete :: "dispatcher option"

text \<open>
  A method returns the state it leaves with \<open>None\<close>, or with the error it threw.
\<close>

type_synonym 'a outcome = "error option \<times> 'a"

definition notifyLoadComplete :: "media \<Rightarrow> media outcome" where
  "notifyLoadComplete m =
     (let m1 = m\<lparr>m_loaded := True\<rparr> in
      case m_onLoadComplete m1 of
        None \<Rightarrow> (Some TypeError, m1)
      | Some d \<Rightarrow> (None, m1\<lparr>m_onLoadComplete := Some (d\<lparr>dispatched := Suc (dispatched d)\<rparr>)\<rparr>))"

text \<open>\<open>!v\<close>.\<close>

fun falsy :: "jsval \<Rightarrow> bool" where
  "falsy JUndefined = True"
| "falsy JNull = True"
| "falsy (JBool b) = (\<not> b)"
| "falsy (JNum n) = (n = 0)"
| "falsy (JStr s) = (s = [])"
| "falsy (JArr xs) = False"
| "falsy (JObj fs) = False"

text \<open>\<open>toLowerCase\<close> on the letters A to Z; the other characters stay.\<close>

definition lower_char :: "char \<Rightarrow> char" where
  "lower_char c =
     (let n = (of_char c :: nat) in if 65 \<le> n \<and> n \<le> 90 then char_of (n + 32) else c)"

definition toLowerCase :: "string \<Rightarrow> string" where
  "toLowerCase s = map lower_char s"

text \<open>Lines 178 to 186: the loop over the levels, \<open>acc\<close> is \<open>source.url\<close>.\<close>

fun levels_loop :: "env \<Rightarrow> level_config list \<Rightarrow> jsval list \<Rightarrow> jsval list" where
  "levels_loop env [] acc = acc"
| "levels_loop env (l # ls) acc =
     (if Device_check env (lvl_device l) = False then levels_loop env ls acc
      else levels_loop env ls (acc @ [lvl_url l]))"

text \<open>Lines 175 to 187.\<close>

definition filter_levels :: "env \<Rightarrow> source_config \<Rightarrow> source_config" where
  "filter_levels env source =
     (case src_levels source of
        None \<Rightarrow> source
      | Some ls \<Rightarrow> source\<lparr>src_url := JArr (levels_loop env ls [])\<rparr>)"

text \<open>Line 189: \<open>typeof source.url !== "string" && source.url.length === 0\<close>.\<close>

definition url_empty :: "jsval \<Rightarrow> error + bool" where
  "url_empty url =
     (if js_typeof url \<noteq> ''string'' then bind (js_length url) (\<lambda>n. Inr (n = JNum 0))
      else Inr False)"

text \<open>
  Line 194: \<open>typeof source.streaming !== "undefined" && source.streaming.toLowerCase() ===
  FORGE.VideoFormat.DASH\<close>. Only a string has \<open>toLowerCase\<close>.
\<close>

fun is_dash :: "jsval \<Rightarrow> error + bool" where
  "is_dash JUndefined = Inr False"
| "is_dash (JStr s) = Inr (toLowerCase s = VideoFormat_DASH)"
| "is_dash v = Inl TypeError"

text \<open>A write into the source object \<open>config.source\<close> refers to.\<close>

definition set_source :: "source_config \<Rightarrow> media \<Rightarrow> media" where
  "set_source source m =
     (case m_config m of
        Ref config \<Rightarrow> m\<lparr>m_config := Ref (config\<lparr>cfg_source := Ref source\<rparr>)\<rparr>
      | _ \<Rightarrow> m)"

text \<open>Lines 130 to 167: the image branch.\<close>

definition parseConfig_image :: "source_config \<Rightarrow> media \<Rightarrow> media outcome" where
  "parseConfig_image source m =
     (if falsy (src_url source) then (Some (Thrown ''Multi resolution not implemented yet !''), m)
      else if src_format source = MediaFormat_EQUIRECTANGULAR
            \<or> src_format source = MediaFormat_CUBE
            \<or> src_format source = MediaFormat_FLAT then
        (None, m\<lparr>m_displayObject :=
           Some \<lparr>do_new = FORGE_Image (m_uid m) (src_url source), do_calls = [],
                 do_listener = Some OnImageLoadComplete\<rparr>\<rparr>)
      else (Some (Thrown ''Media format not supported''), m))"

text \<open>Lines 169 to 212: the video branch.\<close>

definition parseConfig_video :: "env \<Rightarrow> source_config \<Rightarrow> media \<Rightarrow> media outcome" where
  "parseConfig_video env source0 m0 =
     (let source = filter_levels env source0; m = set_source source m0 in
      case url_empty (src_url source) of
        Inl e \<Rightarrow> (Some e, m)
      | Inr True \<Rightarrow> (None, m)
      | Inr False \<Rightarrow>
          (case is_dash (src_streaming source) of
             Inl e \<Rightarrow> (Some e, m)
           | Inr True \<Rightarrow>
               (None, m\<lparr>m_displayObject :=
                  Some \<lparr>do_new = FORGE_VideoDash (m_uid m), do_calls = [Load (src_url source)],
                        do_listener = Some OnLoadedMetaDataHandler\<rparr>\<rparr>)
           | Inr False \<Rightarrow>
               (case m_viewer m of
                  None \<Rightarrow> (Some TypeError, m)
                | Some v \<Rightarrow>
                    (None, m\<lparr>m_displayObject :=
                       Some \<lparr>do_new = FORGE_VideoHTML5 (m_uid m)
                                (hasSoundTarget v (m_uid m) = True \<and> isAmbisonic v = True),
                             do_calls = [Load (src_url source)],
                             do_listener = Some OnLoadedMetaDataHandler\<rparr>\<rparr>))))"

text \<open>Lines 106 to 110.\<close>

definition read_config :: "scene_media_config \<Rightarrow> media \<Rightarrow> media" where
  "read_config config m =
     m\<lparr>m_uid := cfg_uid config,
       m_options := (if cfg_options config \<noteq> JUndefined then cfg_options config else JNull),
       m_type := cfg_type config\<rparr>"

text \<open>Lines 114 to 117, on a source that is an object.\<close>

definition default_format :: "source_config \<Rightarrow> source_config" where
  "default_format source =
     (if src_format source = JUndefined then source\<lparr>src_format := MediaFormat_FLAT\<rparr>
      else source)"

text \<open>
  Lines 95 to 213. Line 114 reads \<open>config.source.format\<close> whenever \<open>config.source\<close> is not
  \<open>undefined\<close>: on \<open>null\<close> the read throws, so the test against \<open>null\<close> in line 125 is
  never reached with \<open>null\<close>. The variable \<open>source\<close> and \<open>config.source\<close> are one object:
  the branches read the source line 116 may have written.
\<close>

definition parseConfig :: "env \<Rightarrow> media \<Rightarrow> media outcome" where
  "parseConfig env m =
     (case m_config m of
        Undefined \<Rightarrow> notifyLoadComplete (m\<lparr>m_type := MediaType_UNDEFINED\<rparr>)
      | Null \<Rightarrow> notifyLoadComplete (m\<lparr>m_type := MediaType_UNDEFINED\<rparr>)
      | Ref config \<Rightarrow>
          (let m1 = read_config config m in
           case cfg_source config of
             Null \<Rightarrow> (Some TypeError, m1)
           | Undefined \<Rightarrow>
               if m_type m1 = MediaType_GRID then notifyLoadComplete m1 else (None, m1)
           | Ref source0 \<Rightarrow>
               (let source = default_format source0; m2 = set_source source m1 in
                if m_type m2 = MediaType_GRID then notifyLoadComplete m2
                else if m_type m2 = MediaType_IMAGE then parseConfig_image source m2
                else if m_type m2 = MediaType_VIDEO then parseConfig_video env source m2
                else (None, m2))))"

text \<open>
  Lines 81 to 87 and 10 to 71: \<open>_boot\<close> and the constructor. \<open>FORGE.BaseObject\<close> is not
  under src/; \<open>_uid\<close> is read only after line 106 has set it, so its first value does
  not matter.
\<close>

definition boot :: "env \<Rightarrow> media \<Rightarrow> media outcome" where
  "boot env m = parseConfig env (m\<lparr>m_onLoadComplete := Some \<lparr>memorize = True, dispatched = 0\<rparr>\<rparr>)"

definition new_Media :: "env \<Rightarrow> viewer \<Rightarrow> scene_media_config ref \<Rightarrow> media outcome" where
  "new_Media env v config =
     boot env \<lparr>m_viewer = Some v, m_config = config, m_uid = JUndefined, m_type = JStr [],
               m_options = JNull, m_displayObject = None, m_loaded = False,
               m_onLoadComplete = None\<rparr>"

text \<open>Lines 220 to 248: the two handlers.\<close>

definition onImageLoadComplete :: "media \<Rightarrow> media outcome" where
  "onImageLoadComplete m = notifyLoadComplete m"

text \<open>\<open>o.name\<close> for a name that is neither \<open>length\<close> nor an index.\<close>

fun js_get :: "jsval \<Rightarrow> string \<Rightarrow> error + jsval" where
  "js_get JUndefined k = Inl TypeError"
| "js_get JNull k = Inl TypeError"
| "js_get (JObj fs) k = Inr (getprop fs k)"
| "js_get v k = Inr JUndefined"

definition typed_or :: "string \<Rightarrow> jsval \<Rightarrow> jsval \<Rightarrow> jsval" where
  "typed_or ty v dflt = (if js_typeof v = ty then v else dflt)"

definition apply_options :: "env \<Rightarrow> jsval \<Rightarrow> display_object \<Rightarrow> error + display_object" where
  "apply_options env opts d =
     bind (js_get opts ''volume'') (\<lambda>volume.
     bind (js_get opts ''loop'') (\<lambda>loop.
     bind (js_get opts ''startTime'') (\<lambda>startTime.
     bind (js_get opts ''autoPlay'') (\<lambda>autoPlay.
     bind (js_get opts ''autoPause'') (\<lambda>autoPause.
     bind (js_get opts ''autoResume'') (\<lambda>autoResume.
       Inr (d\<lparr>do_calls := do_calls d
             @ [Assign ''volume'' (typed_or ''number'' volume (JNum 1)),
                Assign ''loop'' (typed_or ''boolean'' loop (JBool True)),
                Assign ''currentTime'' (typed_or ''number'' startTime (JNum 0))]
             @ (if autoPlay = JBool True \<and> document_visible env then [Play] else [])
             @ [Assign ''autoPause'' autoPause, Assign ''autoResume'' autoResume]\<rparr>)))))))"

definition onLoadedMetaDataHandler :: "env \<Rightarrow> media \<Rightarrow> media outcome" where
  "onLoadedMetaDataHandler env m =
     (if m_options m \<noteq> JNull then
        (case m_displayObject m of
           None \<Rightarrow> (Some TypeError, m)
         | Some d \<Rightarrow>
             (case apply_options env (m_options m) d of
                Inl e \<Rightarrow> (Some e, m)
              | Inr d' \<Rightarrow> notifyLoadComplete (m\<lparr>m_displayObject := Some d'\<rparr>)))
      else notifyLoadComplete m)"

text \<open>
  The owned display object fires its signal: the handler registered by \<open>addOnce\<close> runs,
  once. Without a display object, or without a handler on it, nothing runs.
\<close>

definition signal :: "env \<Rightarrow> media \<Rightarrow> media outcome" where
  "signal env m =
     (case m_displayObject m of
        None \<Rightarrow> (None, m)
      | Some d \<Rightarrow>
          (case do_listener d of
             None \<Rightarrow> (None, m)
           | Some h \<Rightarrow>
               (let m' = m\<lparr>m_displayObject := Some (d\<lparr>do_listener := None\<rparr>)\<rparr> in
                case h of
                  OnImageLoadComplete \<Rightarrow> onImageLoadComplete m'
                | OnLoadedMetaDataHandler \<Rightarrow> onLoadedMetaDataHandler env m')))"

text \<open>The state after \<open>n\<close> firings of the display object's signal.\<close>

fun signals :: "env \<Rightarrow> nat \<Rightarrow> media \<Rightarrow> media" where
  "signals env 0 m = m"
| "signals env (Suc n) m = signals env n (snd (signal env m))"

text \<open>
  Lines 265 to 280. \<open>x.destroy()\<close> is a method call through a reference, a \<open>TypeError\<close>
  when the reference is \<open>null\<close>; the source guards both calls.
\<close>

definition method_call :: "'a option \<Rightarrow> error option" where
  "method_call obj = (case obj of None \<Rightarrow> Some TypeError | Some x \<Rightarrow> None)"

definition destroy_displayObject :: "media \<Rightarrow> media outcome" where
  "destroy_displayObject m =
     (if m_displayObject m \<noteq> None then
        (case method_call (m_displayObject m) of
           Some e \<Rightarrow> (Some e, m)
         | None \<Rightarrow> (None, m\<lparr>m_displayObject := None\<rparr>))
      else (None, m))"

definition destroy_onLoadComplete :: "media \<Rightarrow> media outcome" where
  "destroy_onLoadComplete m =
     (if m_onLoadComplete m \<noteq> None then
        (case method_call (m_onLoadComplete m) of
           Some e \<Rightarrow> (Some e, m)
         | None \<Rightarrow> (None, m\<lparr>m_onLoadComplete := None\<rparr>))
      else (None, m))"

definition destroy :: "media \<Rightarrow> media outcome" where
  "destroy m =
     (case destroy_displayObject m of
        (Some e, m1) \<Rightarrow> (Some e, m1)
      | (None, m1) \<Rightarrow>
          (case destroy_onLoadComplete m1 of
             (Some e, m2) \<Rightarrow> (Some e, m2)
           | (None, m2) \<Rightarrow> (None, m2\<lparr>m_viewer := None\<rparr>)))"

text \<open>Lines 288 to 355: the read-only accessors.\<close>

definition get_config :: "media \<Rightarrow> scene_media_config ref" where
  "get_config m = m_config m"

definition get_displayObject :: "media \<Rightarrow> display_object option" where
  "get_displayObject m = m_displayObject m"

definition get_loaded :: "media \<Rightarrow> bool" where
  "get_loaded m = m_loaded m"

definition get_onLoadComplete :: "media \<Rightarrow> dispatcher option" where
  "get_onLoadComplete m = m_onLoadComplete m"

text \<open>How often \<open>onLoadComplete\<close> has fired.\<close>

definition fired :: "media \<Rightarrow> nat" where
  "fired m = (case get_onLoadComplete m of None \<Rightarrow> 0 | Some d \<Rightarrow> dispatched d)"

section \<open>Statement devices and example inputs\<close>

text \<open>
  The stage \<open>parseShaderPasses\<close> pushes for one descriptor: none when the catalog lacks
  its type, none when its parameters throw.
\<close>

definition compiled :: "catalog \<Rightarrow> fx \<Rightarrow> shader_pass option" where
  "compiled THREE f =
     (case THREE (fx_type f) of
        None \<Rightarrow> None
      | Some shader \<Rightarrow> (case compile_pass shader f of Inl e \<Rightarrow> None | Inr pass \<Rightarrow> Some pass))"

text \<open>A device that supports \<open>B\<close> only, on a visible page; a scene without sound targets.\<close>

definition env0 :: env where
  "env0 = \<lparr>Device_check = (\<lambda>d. d = JStr ''B''), document_visible = True\<rparr>"

definition viewer0 :: viewer where
  "viewer0 = \<lparr>hasSoundTarget = (\<lambda>u. False), isAmbisonic = False\<rparr>"

text \<open>\<open>{uid: "media-0", type: "video", source: {url: ""}}\<close>\<close>

definition source_empty_string :: source_config where
  "source_empty_string =
     \<lparr>src_url = JStr [], src_levels = None, src_format = JUndefined,
      src_streaming = JUndefined\<rparr>"

definition video_empty_string :: scene_media_config where
  "video_empty_string =
     \<lparr>cfg_uid = JStr ''media-0'', cfg_type = MediaType_VIDEO,
      cfg_source = Ref source_empty_string, cfg_options = JUndefined\<rparr>"

text \<open>
  \<open>{uid: "media-1", type: "video", source: {levels: [{device: "A", url: "a"}, {device:
  "B", url: "b"}]}}\<close>
\<close>

definition video_levels :: scene_media_config where
  "video_levels =
     \<lparr>cfg_uid = JStr ''media-1'', cfg_type = MediaType_VIDEO,
      cfg_source = Ref \<lparr>src_url = JUndefined,
                        src_levels = Some [\<lparr>lvl_device = JStr ''A'', lvl_url = JStr ''a''\<rparr>,
                                           \<lparr>lvl_device = JStr ''B'', lvl_url = JStr ''b''\<rparr>],
                        src_format = JUndefined, src_streaming = JUndefined\<rparr>,
      cfg_options = JUndefined\<rparr>"

text \<open>
  \<open>{uid: "media-2", type: "video", source: {url: "fallback.mp4", format: "equi", levels:
  [{device: "A", url: "a"}]}}\<close>
\<close>

definition video_unsupported :: scene_media_config where
  "video_unsupported =
     \<lparr>cfg_uid = JStr ''media-2'', cfg_type = MediaType_VIDEO,
      cfg_source = Ref \<lparr>src_url = JStr ''fallback.mp4'',
                        src_levels = Some [\<lparr>lvl_device = JStr ''A'', lvl_url = JStr ''a''\<rparr>],
                        src_format = MediaFormat_EQUIRECTANGULAR, src_streaming = JUndefined\<rparr>,
      cfg_options = JUndefined\<rparr>"

text \<open>\<open>{uid: "media-3", type: "grid", source: null}\<close>\<close>

definition grid_null_source :: scene_media_config where
  "grid_null_source =
     \<lparr>cfg_uid = JStr ''media-3'', cfg_type = MediaType_GRID, cfg_source = Null,
      cfg_options = JUndefined\<rparr>"

text \<open>\<open>{uid: "media-4", type: "image", source: {format: "equi"}}\<close>\<close>

definition image_no_url :: scene_media_config where
  "image_no_url =
     \<lparr>cfg_uid = JStr ''media-4'', cfg_type = MediaType_IMAGE,
      cfg_source = Ref \<lparr>src_url = JUndefined, src_levels = None,
                        src_format = MediaFormat_EQUIRECTANGULAR, src_streaming = JUndefined\<rparr>,
      cfg_options = JUndefined\<rparr>"

text \<open>A catalog of two shaders with uniforms and one entry whose pass has none.\<close>

definition catalog0 :: catalog where
  "catalog0 = map_of
     [(''ColorifyShader'', Some [(''tDiffuse'', Raw JNull), (''color'', Raw JNull)]),
      (''VignetteShader'', Some [(''offset'', Raw (JNum 1)), (''darkness'', Raw (JNum 1))]),
      (''Clock'', None)]"

text \<open>
  \<open>{uid: "fx-0", type: "ColorifyShader", params: {color: {type: "THREE.Color", args:
  "red"}}}\<close>
\<close>

definition fx_red :: fx where
  "fx_red =
     \<lparr>fx_uid = JStr ''fx-0'', fx_type = ''ColorifyShader'',
      fx_params = [(''color'', JObj [(''type'', JStr ''THREE.Color''), (''args'', JStr ''red'')])]\<rparr>"

text \<open>
  \<open>{uid: "fx-1", type: "VignetteShader", params: {offset: 2, darkness: {type: "Texture",
  args: []}}}\<close>
\<close>

definition fx_vignette :: fx where
  "fx_vignette =
     \<lparr>fx_uid = JStr ''fx-1'', fx_type = ''VignetteShader'',
      fx_params = [(''offset'', JNum 2),
                   (''darkness'', JObj [(''type'', JStr ''Texture''), (''args'', JArr [])])]\<rparr>"

text \<open>\<open>{uid: "fx-2", type: "NoSuchShader"}\<close>\<close>

definition fx_unknown :: fx where
  "fx_unknown = \<lparr>fx_uid = JStr ''fx-2'', fx_type = ''NoSuchShader'', fx_params = []\<rparr>"



text \<open>\<open>{uid: "fx-5", type: "Clock", params: {darkness: {type: "Texture", args: []}}}\<close>\<close>

definition fx_clock :: fx where
  "fx_clock =
     \<lparr>fx_uid = JStr ''fx-5'', fx_type = ''Clock'',
      fx_params = [(''darkness'', JObj [(''type'', JStr ''Texture''), (''args'', JArr [])])]\<rparr>"

text \<open>\<open>{uid: "fx-6", type: "VignetteShader", params: {radius: {type: "Texture", args: []}}}\<close>\<close>

definition fx_spec_no_slot :: fx where
  "fx_spec_no_slot =
     \<lparr>fx_uid = JStr ''fx-6'', fx_type = ''VignetteShader'',
      fx_params = [(''radius'', JObj [(''type'', JStr ''Texture''), (''args'', JArr [])])]\<rparr>"

text \<open>
  \<open>{uid: "fx-7", type: "VignetteShader", params: {darkness: {type: "Texture", args: [],
  hasOwnProperty: true}}}\<close>
\<close>

definition fx_shadow :: fx where
  "fx_shadow =
     \<lparr>fx_uid = JStr ''fx-7'', fx_type = ''VignetteShader'',
      fx_params = [(''darkness'', JObj [(''type'', JStr ''Texture''), (''args'', JArr []),
                                        (''hasOwnProperty'', JBool True)])]\<rparr>"

section \<open>FORGE.Media: resolution\<close>

lemmas tag_defs =
  MediaType_UNDEFINED_def MediaType_GRID_def MediaType_IMAGE_def MediaType_VIDEO_def
  MediaFormat_EQUIRECTANGULAR_def MediaFormat_CUBE_def MediaFormat_FLAT_def

lemmas getter_defs =
  get_config_def get_displayObject_def get_loaded_def get_onLoadComplete_def fired_def

lemmas media_defs =
  new_Media_def boot_def parseConfig_def read_config_def default_format_def
  parseConfig_video_def parseConfig_image_def notifyLoadComplete_def set_source_def
  filter_levels_def url_empty_def bind_def Let_def tag_defs getter_defs

lemma read_config_fields [simp]:
  "m_config (read_config c m) = m_config m"
  "m_type (read_config c m) = cfg_type c"
  "m_displayObject (read_config c m) = m_displayObject m"
  "m_onLoadComplete (read_config c m) = m_onLoadComplete m"
  "m_loaded (read_config c m) = m_loaded m"
  "m_viewer (read_config c m) = m_viewer m"
  "m_uid (read_config c m) = cfg_uid c"
  by (simp_all add: read_config_def)

lemma set_source_fields [simp]:
  "m_type (set_source s m) = m_type m"
  "m_displayObject (set_source s m) = m_displayObject m"
  "m_onLoadComplete (set_source s m) = m_onLoadComplete m"
  "m_loaded (set_source s m) = m_loaded m"
  "m_viewer (set_source s m) = m_viewer m"
  "m_uid (set_source s m) = m_uid m"
  "m_options (set_source s m) = m_options m"
  by (simp_all add: set_source_def split: ref.splits)

lemma set_source_config [simp]:
  "m_config m = Ref c \<Longrightarrow> m_config (set_source s m) = Ref (c\<lparr>cfg_source := Ref s\<rparr>)"
  by (simp add: set_source_def)

lemma default_format_fields [simp]:
  "src_url (default_format s) = src_url s"
  "src_levels (default_format s) = src_levels s"
  "src_streaming (default_format s) = src_streaming s"
  "src_format (default_format s)
     = (if src_format s = JUndefined then MediaFormat_FLAT else src_format s)"
  by (simp_all add: default_format_def)

lemma filter_levels_fields [simp]:
  "src_levels (filter_levels env s) = src_levels s"
  "src_streaming (filter_levels env s) = src_streaming s"
  "src_format (filter_levels env s) = src_format s"
  by (simp_all add: filter_levels_def split: option.splits)

lemma filter_levels_default_format:
  "filter_levels env (default_format s) = default_format (filter_levels env s)"
  by (simp add: filter_levels_def default_format_def split: option.splits)

text \<open>The loop over the levels is an order-preserving filter.\<close>

lemma levels_loop_filter:
  "levels_loop env ls acc
     = acc @ map lvl_url (filter (\<lambda>l. Device_check env (lvl_device l)) ls)"
  by (induction ls arbitrary: acc) auto

lemma filter_levels_url:
  "src_url (filter_levels env s) =
     (case src_levels s of
        None \<Rightarrow> src_url s
      | Some ls \<Rightarrow> JArr (map lvl_url (filter (\<lambda>l. Device_check env (lvl_device l)) ls)))"
  by (simp add: filter_levels_def levels_loop_filter split: option.splits)

text \<open>The constructor on a descriptor whose source is an object.\<close>

lemma new_Media_source:
  assumes "cfg_source c = Ref s"
  shows "new_Media env v (Ref c) =
    (let m0 = \<lparr>m_viewer = Some v, m_config = Ref c, m_uid = JUndefined, m_type = JStr [],
               m_options = JNull, m_displayObject = None, m_loaded = False,
               m_onLoadComplete = Some \<lparr>memorize = True, dispatched = 0\<rparr>\<rparr>;
         m2 = set_source (default_format s) (read_config c m0) in
     if cfg_type c = MediaType_GRID then notifyLoadComplete m2
     else if cfg_type c = MediaType_IMAGE then parseConfig_image (default_format s) m2
     else if cfg_type c = MediaType_VIDEO then parseConfig_video env (default_format s) m2
     else (None, m2))"
  using assms by (simp add: new_Media_def boot_def parseConfig_def Let_def)

lemma notifyLoadComplete_config [simp]: "m_config (snd (notifyLoadComplete m)) = m_config m"
  by (simp add: notifyLoadComplete_def Let_def split: option.splits)

lemma parseConfig_image_config [simp]: "m_config (snd (parseConfig_image s m)) = m_config m"
  by (simp add: parseConfig_image_def)

lemma parseConfig_video_config [simp]:
  "m_config (snd (parseConfig_video env s m)) = m_config (set_source (filter_levels env s) m)"
  by (simp add: parseConfig_video_def Let_def split: sum.splits bool.splits option.splits)

lemma parseConfig_video_load:
  "m_displayObject m = None \<Longrightarrow> m_displayObject (snd (parseConfig_video env s m)) = Some d
   \<Longrightarrow> do_calls d = [Load (src_url (filter_levels env s))]"
  by (auto simp: parseConfig_video_def Let_def split: sum.splits bool.splits option.splits)

text \<open>Without a display object no signal reaches the media.\<close>

lemma signal_no_display: "m_displayObject m = None \<Longrightarrow> signal env m = (None, m)"
  by (simp add: signal_def)

lemma signals_no_display: "m_displayObject m = None \<Longrightarrow> signals env n m = m"
  by (induction n) (simp_all add: signal_no_display)

lemma notifyLoadComplete_fires:
  "m_onLoadComplete m = Some d \<Longrightarrow> m_displayObject m = None \<Longrightarrow>
   fst (notifyLoadComplete m) = None
   \<and> fired (snd (notifyLoadComplete m)) = Suc (dispatched d)
   \<and> m_loaded (snd (notifyLoadComplete m))
   \<and> m_displayObject (snd (notifyLoadComplete m)) = None"
  by (simp add: notifyLoadComplete_def Let_def getter_defs)

text \<open>
  C1, as stated, fails: a Video descriptor whose url is the empty string (neither a
  non-empty string nor a non-empty sequence) passes the test of line 189, which lets every
  string through, and a \<open>FORGE.VideoHTML5\<close> is constructed and loaded with \<open>""\<close>.
\<close>

theorem video_empty_string_url_constructs_source:
  "cfg_type video_empty_string = MediaType_VIDEO
   \<and> cfg_source video_empty_string = Ref source_empty_string
   \<and> src_url (filter_levels env0 source_empty_string) = JStr []
   \<and> fst (new_Media env0 viewer0 (Ref video_empty_string)) = None
   \<and> get_displayObject (snd (new_Media env0 viewer0 (Ref video_empty_string)))
       = Some \<lparr>do_new = FORGE_VideoHTML5 (JStr ''media-0'') False,
               do_calls = [Load (JStr [])],
               do_listener = Some OnLoadedMetaDataHandler\<rparr>"
  by (simp add: media_defs video_empty_string_def source_empty_string_def env0_def
      viewer0_def)

text \<open>
  C1, amended: for every Video descriptor with a source object, if after the optional
  levels filtering \<open>source.url\<close> is the empty array, resolution stops silently: the
  constructor returns without an exception, \<open>displayObject\<close> stays null, \<open>loaded\<close> stays
  false, and \<open>onLoadComplete\<close> has not fired and does not fire afterwards, however often
  a source signal is raised.
\<close>

theorem video_empty_url_list_stops_silently:
  assumes "cfg_type c = MediaType_VIDEO" and "cfg_source c = Ref s"
    and "src_url (filter_levels env s) = JArr []"
  shows "fst (new_Media env v (Ref c)) = None
    \<and> get_displayObject (snd (new_Media env v (Ref c))) = None
    \<and> fired (snd (new_Media env v (Ref c))) = 0
    \<and> get_loaded (snd (new_Media env v (Ref c))) = False
    \<and> (\<forall>n. fired (signals env n (snd (new_Media env v (Ref c)))) = 0
          \<and> get_displayObject (signals env n (snd (new_Media env v (Ref c)))) = None)"
proof -
  let ?r = "new_Media env v (Ref c)"
  have u: "src_url (filter_levels env (default_format s)) = JArr []"
    using assms(3) by (simp add: filter_levels_default_format)
  have a: "fst ?r = None \<and> m_displayObject (snd ?r) = None \<and> fired (snd ?r) = 0
      \<and> m_loaded (snd ?r) = False"
    using assms(1) u
    by (simp add: new_Media_source [OF assms(2)] Let_def tag_defs parseConfig_video_def
        url_empty_def bind_def getter_defs)
  then have "signals env n (snd ?r) = snd ?r" for n
    by (simp add: signals_no_display)
  with a show ?thesis by (simp add: get_displayObject_def get_loaded_def)
qed

text \<open>
  The witness: the only level asks for device \<open>A\<close>, which the device does not support, so
  the url list is empty although the source came with a url of its own.
\<close>

theorem video_empty_url_list_witness:
  "cfg_type video_unsupported = MediaType_VIDEO
   \<and> fst (new_Media env0 viewer0 (Ref video_unsupported)) = None
   \<and> get_displayObject (snd (new_Media env0 viewer0 (Ref video_unsupported))) = None
   \<and> fired (snd (new_Media env0 viewer0 (Ref video_unsupported))) = 0
   \<and> fired (signals env0 3 (snd (new_Media env0 viewer0 (Ref video_unsupported)))) = 0"
proof -
  let ?s = "\<lparr>src_url = JStr ''fallback.mp4'',
       src_levels = Some [\<lparr>lvl_device = JStr ''A'', lvl_url = JStr ''a''\<rparr>],
       src_format = MediaFormat_EQUIRECTANGULAR, src_streaming = JUndefined\<rparr>"
  have 1: "cfg_type video_unsupported = MediaType_VIDEO" by (simp add: video_unsupported_def)
  have 2: "cfg_source video_unsupported = Ref ?s" by (simp add: video_unsupported_def)
  have 3: "src_url (filter_levels env0 ?s) = JArr []"
    by (simp add: filter_levels_def env0_def)
  from video_empty_url_list_stops_silently [OF 1 2 3, of viewer0] 1 show ?thesis by simp
qed

text \<open>
  C3, as stated, fails: resolution writes into the descriptor. After resolving the Video
  descriptor with two levels, the object the \<open>config\<close> accessor returns has its
  \<open>source.format\<close> set and its \<open>source.url\<close> replaced, and differs from the configuration
  passed in.
\<close>

theorem config_mutated_by_resolution:
  "get_config (snd (new_Media env0 viewer0 (Ref video_levels))) \<noteq> Ref video_levels"
  by (simp add: media_defs video_levels_def env0_def viewer0_def)

text \<open>
  C3, amended: resolution changes the descriptor in at most two fields, both of a source
  that is an object: \<open>source.format\<close> becomes the flat format when it was unset, and for
  a Video descriptor whose \<open>source.levels\<close> is an array \<open>source.url\<close> becomes the list of
  the urls of the levels the device supports. Every other field of the object the
  \<open>config\<close> accessor returns after resolution equals the configuration passed in, and an
  absent or null descriptor is returned as it came.
\<close>

theorem config_after_resolution:
  "get_config (snd (new_Media env v Undefined)) = Undefined
   \<and> get_config (snd (new_Media env v Null)) = Null
   \<and> get_config (snd (new_Media env v (Ref c))) =
       Ref (c\<lparr>cfg_source :=
         (case cfg_source c of
            Ref s \<Rightarrow>
              Ref (s\<lparr>src_format :=
                        (if src_format s = JUndefined then MediaFormat_FLAT else src_format s),
                      src_url :=
                        (case src_levels s of
                           Some ls \<Rightarrow>
                             if cfg_type c = MediaType_VIDEO
                             then JArr (map lvl_url
                                    (filter (\<lambda>l. Device_check env (lvl_device l)) ls))
                             else src_url s
                         | None \<Rightarrow> src_url s)\<rparr>)
          | r \<Rightarrow> r)\<rparr>)"
proof -
  have a: "get_config (snd (new_Media env v Undefined)) = Undefined"
    by (simp add: new_Media_def boot_def parseConfig_def get_config_def)
  have b: "get_config (snd (new_Media env v Null)) = Null"
    by (simp add: new_Media_def boot_def parseConfig_def get_config_def)
  have c: "get_config (snd (new_Media env v (Ref c))) = Ref (c\<lparr>cfg_source :=
         (case cfg_source c of
            Ref s \<Rightarrow>
              Ref (s\<lparr>src_format :=
                        (if src_format s = JUndefined then MediaFormat_FLAT else src_format s),
                      src_url :=
                        (case src_levels s of
                           Some ls \<Rightarrow>
                             if cfg_type c = MediaType_VIDEO
                             then JArr (map lvl_url
                                    (filter (\<lambda>l. Device_check env (lvl_device l)) ls))
                             else src_url s
                         | None \<Rightarrow> src_url s)\<rparr>)
          | r \<Rightarrow> r)\<rparr>)"
  proof (cases "cfg_source c")
    case Undefined
    then have "c\<lparr>cfg_source := Undefined\<rparr> = c" by simp
    with Undefined show ?thesis
      by (simp add: new_Media_def boot_def parseConfig_def get_config_def Let_def)
  next
    case Null
    then have "c\<lparr>cfg_source := Null\<rparr> = c" by simp
    with Null show ?thesis
      by (simp add: new_Media_def boot_def parseConfig_def get_config_def Let_def)
  next
    case (Ref s)
    show ?thesis
      by (simp add: new_Media_source [OF Ref] Ref get_config_def Let_def tag_defs
          filter_levels_def default_format_def levels_loop_filter split: option.splits)
  qed
  from a b c show ?thesis by blast
qed

text \<open>
  C4: for every Video descriptor whose \<open>source.levels\<close> is an array, the candidate url
  list is exactly the urls of the levels whose device predicate holds, in the order of
  the levels. It is what the loop computes, what \<open>source.url\<close> holds after resolution,
  and what a constructed video source is loaded with.
\<close>

theorem levels_filter_order:
  assumes "cfg_type c = MediaType_VIDEO" and "cfg_source c = Ref s" and "src_levels s = Some ls"
  shows "levels_loop env ls [] = map lvl_url (filter (\<lambda>l. Device_check env (lvl_device l)) ls)
    \<and> (\<exists>c' s'. get_config (snd (new_Media env v (Ref c))) = Ref c' \<and> cfg_source c' = Ref s'
          \<and> src_url s' = JArr (map lvl_url (filter (\<lambda>l. Device_check env (lvl_device l)) ls)))
    \<and> (\<forall>d. get_displayObject (snd (new_Media env v (Ref c))) = Some d \<longrightarrow>
          do_calls d
            = [Load (JArr (map lvl_url (filter (\<lambda>l. Device_check env (lvl_device l)) ls)))])"
proof -
  have u: "src_url (filter_levels env (default_format s)) =
      JArr (map lvl_url (filter (\<lambda>l. Device_check env (lvl_device l)) ls))"
    using assms(3) by (simp add: filter_levels_url)
  have 1: "levels_loop env ls [] = map lvl_url (filter (\<lambda>l. Device_check env (lvl_device l)) ls)"
    by (simp add: levels_loop_filter)
  have 2: "\<exists>c' s'. get_config (snd (new_Media env v (Ref c))) = Ref c' \<and> cfg_source c' = Ref s'
          \<and> src_url s' = JArr (map lvl_url (filter (\<lambda>l. Device_check env (lvl_device l)) ls))"
    using assms(1) u
    by (simp add: new_Media_source [OF assms(2)] Let_def tag_defs get_config_def)
  have 3: "do_calls d
      = [Load (JArr (map lvl_url (filter (\<lambda>l. Device_check env (lvl_device l)) ls)))]"
    if d: "get_displayObject (snd (new_Media env v (Ref c))) = Some d" for d
  proof -
    let ?m0 = "\<lparr>m_viewer = Some v, m_config = Ref c, m_uid = JUndefined, m_type = JStr [],
               m_options = JNull, m_displayObject = None, m_loaded = False,
               m_onLoadComplete = Some \<lparr>memorize = True, dispatched = 0\<rparr>\<rparr>"
    let ?m2 = "set_source (default_format s) (read_config c ?m0)"
    have n: "m_displayObject ?m2 = None" by simp
    have "m_displayObject (snd (parseConfig_video env (default_format s) ?m2)) = Some d"
      using d assms(1)
      by (simp add: new_Media_source [OF assms(2)] Let_def tag_defs get_displayObject_def)
    from parseConfig_video_load [OF n this] u show ?thesis by simp
  qed
  from 1 2 3 show ?thesis by blast
qed

text \<open>
  The witness is the example of the spec: levels for the devices \<open>A\<close> and \<open>B\<close>, of which
  the device supports \<open>B\<close> only, give the url list \<open>["b"]\<close>.
\<close>

theorem levels_filter_order_witness:
  "levels_loop env0 [\<lparr>lvl_device = JStr ''A'', lvl_url = JStr ''a''\<rparr>,
                     \<lparr>lvl_device = JStr ''B'', lvl_url = JStr ''b''\<rparr>] [] = [JStr ''b'']
   \<and> (\<exists>c' s'. get_config (snd (new_Media env0 viewer0 (Ref video_levels))) = Ref c'
         \<and> cfg_source c' = Ref s' \<and> src_url s' = JArr [JStr ''b''])"
proof -
  let ?ls = "[\<lparr>lvl_device = JStr ''A'', lvl_url = JStr ''a''\<rparr>,
              \<lparr>lvl_device = JStr ''B'', lvl_url = JStr ''b''\<rparr>]"
  let ?s = "\<lparr>src_url = JUndefined, src_levels = Some ?ls,
       src_format = JUndefined, src_streaming = JUndefined\<rparr>"
  have 1: "cfg_type video_levels = MediaType_VIDEO" by (simp add: video_levels_def)
  have 2: "cfg_source video_levels = Ref ?s" by (simp add: video_levels_def)
  have 3: "src_levels ?s = Some ?ls" by simp
  have 4: "map lvl_url (filter (\<lambda>l. Device_check env0 (lvl_device l)) ?ls) = [JStr ''b'']"
    by (simp add: env0_def)
  from levels_filter_order [OF 1 2 3, of env0 viewer0] show ?thesis unfolding 4 by blast
qed

text \<open>
  The immediate cases: for an absent or null descriptor, and for a Grid descriptor whose
  source is not \<open>null\<close>, the constructor returns normally, \<open>loaded\<close> is true, and
  \<open>onLoadComplete\<close> has fired once and stays at one firing whatever signals follow.
\<close>

lemma grid_or_absent_fires_once:
  assumes "config = Undefined \<or> config = Null
           \<or> (\<exists>c. config = Ref c \<and> cfg_type c = MediaType_GRID \<and> cfg_source c \<noteq> Null)"
  shows "fst (new_Media env v config) = None
    \<and> get_loaded (snd (new_Media env v config))
    \<and> fired (snd (new_Media env v config)) = 1
    \<and> (\<forall>n. fired (signals env n (snd (new_Media env v config))) = 1)"
proof -
  let ?r = "new_Media env v config"
  have a: "fst ?r = None \<and> fired (snd ?r) = 1 \<and> m_loaded (snd ?r)
      \<and> m_displayObject (snd ?r) = None"
    using assms
  proof (elim disjE exE conjE)
    assume "config = Undefined"
    then show ?thesis
      by (simp add: new_Media_def boot_def parseConfig_def notifyLoadComplete_fires)
  next
    assume "config = Null"
    then show ?thesis
      by (simp add: new_Media_def boot_def parseConfig_def notifyLoadComplete_fires)
  next
    fix c assume c: "config = Ref c" "cfg_type c = MediaType_GRID" "cfg_source c \<noteq> Null"
    show ?thesis
    proof (cases "cfg_source c")
      case Undefined
      with c show ?thesis
        by (simp add: new_Media_def boot_def parseConfig_def Let_def notifyLoadComplete_fires)
    next
      case Null
      with c show ?thesis by simp
    next
      case (Ref s)
      with c show ?thesis
        by (simp add: new_Media_source [OF Ref] Let_def notifyLoadComplete_fires)
    qed
  qed
  then have "signals env n (snd ?r) = snd ?r" for n
    by (simp add: signals_no_display)
  with a show ?thesis by (simp add: get_loaded_def)
qed

text \<open>
  C5 at the Grid descriptor \<open>{uid: "media-3", type: "grid", source: null}\<close>: line 114
  reads \<open>config.source.format\<close> on \<open>null\<close> before the Grid test of line 119, the
  constructor throws a \<open>TypeError\<close>, \<open>onLoadComplete\<close> has not fired and \<open>loaded\<close> is
  false. Line 125 shows that a \<open>null\<close> source is an input the code expects.
\<close>

theorem grid_null_source_throws:
  "cfg_type grid_null_source = MediaType_GRID
   \<and> fst (new_Media env0 viewer0 (Ref grid_null_source)) = Some TypeError
   \<and> fired (snd (new_Media env0 viewer0 (Ref grid_null_source))) = 0
   \<and> get_loaded (snd (new_Media env0 viewer0 (Ref grid_null_source))) = False"
  by (simp add: media_defs grid_null_source_def)

text \<open>
  C6: for every Image descriptor with a source object but no \<open>source.url\<close>, the
  constructor throws "Multi resolution not implemented yet !" (the spec's
  UnsupportedConfiguration) before any display object is constructed: \<open>displayObject\<close> is
  null, nothing has fired, and the error is the constructor's outcome.
\<close>

theorem image_without_url_throws:
  assumes "cfg_type c = MediaType_IMAGE" and "cfg_source c = Ref s" and "src_url s = JUndefined"
  shows "fst (new_Media env v (Ref c)) = Some (Thrown ''Multi resolution not implemented yet !'')
    \<and> get_displayObject (snd (new_Media env v (Ref c))) = None
    \<and> fired (snd (new_Media env v (Ref c))) = 0
    \<and> get_loaded (snd (new_Media env v (Ref c))) = False"
  using assms(1,3)
  by (simp add: new_Media_source [OF assms(2)] Let_def tag_defs parseConfig_image_def getter_defs)

theorem image_without_url_witness:
  "cfg_type image_no_url = MediaType_IMAGE
   \<and> fst (new_Media env0 viewer0 (Ref image_no_url))
       = Some (Thrown ''Multi resolution not implemented yet !'')
   \<and> get_displayObject (snd (new_Media env0 viewer0 (Ref image_no_url))) = None"
proof -
  let ?s = "\<lparr>src_url = JUndefined, src_levels = None,
       src_format = MediaFormat_EQUIRECTANGULAR, src_streaming = JUndefined\<rparr>"
  have 1: "cfg_type image_no_url = MediaType_IMAGE" by (simp add: image_no_url_def)
  have 2: "cfg_source image_no_url = Ref ?s" by (simp add: image_no_url_def)
  have 3: "src_url ?s = JUndefined" by simp
  from image_without_url_throws [OF 1 2 3, of env0 viewer0] 1 show ?thesis by simp
qed

text \<open>
  C8: \<open>destroy()\<close> never throws and leaves \<open>displayObject\<close> null, whatever the state of
  the media: with or without a display object, a second time, and right after any
  construction that returned a media.
\<close>

theorem destroy_releases_displayObject:
  "fst (destroy m) = None
   \<and> get_displayObject (snd (destroy m)) = None
   \<and> fst (destroy (snd (destroy m))) = None
   \<and> fst (destroy (snd (new_Media env v config))) = None
   \<and> get_displayObject (snd (destroy (snd (new_Media env v config)))) = None"
proof -
  have a: "fst (destroy m) = None \<and> get_displayObject (snd (destroy m)) = None" for m
    by (simp add: destroy_def destroy_displayObject_def destroy_onLoadComplete_def
        method_call_def get_displayObject_def split: option.splits)
  show ?thesis using a by blast
qed

section \<open>FORGE.PostProcessing: compilation\<close>

lemmas fx_defs =
  parseShaderPasses_def compile_pass_def bind_uniform_def build_value_def
  hasOwnProperty_def getprop_def bind_def warning_def

text \<open>The Color branch where it does what its three cases say.\<close>

lemma color_three_components:
  "build_value (JObj [(''type'', JStr ''THREE.Color''), (''args'', JArr [r, g, b])])
     = Inr (THREE_Color3 r g b)"
  by (simp add: build_value_def hasOwnProperty_def getprop_def bind_def)

lemma color_number:
  "build_value (JObj [(''type'', JStr ''THREE.Color''), (''args'', JNum n)])
     = Inr (THREE_Color1 (JNum n))"
  by (simp add: build_value_def hasOwnProperty_def getprop_def bind_def)

lemma color_string:
  "length s \<noteq> 3 \<Longrightarrow>
   build_value (JObj [(''type'', JStr ''THREE.Color''), (''args'', JStr s)])
     = Inr (THREE_Color1 (JStr s))"
  by (simp add: build_value_def hasOwnProperty_def getprop_def bind_def)

lemma color_other_arity:
  "length xs \<noteq> 3 \<Longrightarrow>
   build_value (JObj [(''type'', JStr ''THREE.Color''), (''args'', JArr xs)])
     = Inl (CannotCreateColor (JArr xs))"
  by (simp add: build_value_def hasOwnProperty_def getprop_def bind_def)

text \<open>
  C2 at the parameter \<open>{type: "THREE.Color", args: "red"}\<close>: \<open>args\<close> is a single string,
  but \<open>args.length === 3\<close> holds for a string of three characters, so the first branch
  runs and the uniform is bound to \<open>new THREE.Color("r", "e", "d")\<close>, not to the named
  color \<open>new THREE.Color("red")\<close> the second branch builds from a single string.
\<close>

theorem color_three_letter_name_split:
  "parseShaderPasses catalog0 (Ref [fx_red]) =
     ([], Inr [\<lparr>pass_uid = JStr ''fx-0'', pass_type = ''ColorifyShader'',
                pass_uniforms = Some [(''tDiffuse'', Raw JNull),
                   (''color'', THREE_Color3 (JStr ''r'') (JStr ''e'') (JStr ''d''))]\<rparr>])"
  by (simp add: fx_defs catalog0_def fx_red_def)

text \<open>
  The loop over the parameters succeeds exactly when every parameter name is a uniform
  slot or an inherited name and every parameter value builds.
\<close>

lemma bind_uniform_names:
  assumes "bind_uniform us k val = Inr us'"
  shows "fst ` set us' = fst ` set us"
proof (cases "map_of us k = None")
  case True
  with assms show ?thesis by (simp add: bind_uniform_def split: if_splits)
next
  case False
  then have k: "k \<in> fst ` set us" by (simp add: map_of_eq_None_iff)
  from False assms have "us' = AList.update k val us" by (simp add: bind_uniform_def)
  with k show ?thesis by (simp add: dom_update insert_absorb)
qed

lemma bind_uniform_ok_iff:
  "(\<exists>us'. bind_uniform us k val = Inr us') \<longleftrightarrow> k \<in> fst ` set us \<or> k \<in> set Object_prototype"
  by (auto simp: bind_uniform_def map_of_eq_None_iff)

lemma params_loop_ok_iff:
  "(\<exists>us'. params_loop ps us = Inr us') \<longleftrightarrow>
   (\<forall>(k, v) \<in> set ps. (k \<in> fst ` set us \<or> k \<in> set Object_prototype)
       \<and> (\<exists>val. build_value v = Inr val))"
proof (induction ps arbitrary: us)
  case Nil
  then show ?case by simp
next
  case (Cons p ps)
  obtain k v where p: "p = (k, v)" by (cases p)
  show ?case
  proof (cases "build_value v")
    case (Inl e)
    then show ?thesis using p by (simp add: bind_def)
  next
    case (Inr val)
    show ?thesis
    proof (cases "bind_uniform us k val")
      case (Inl e)
      then have "\<not> (k \<in> fst ` set us \<or> k \<in> set Object_prototype)"
        using bind_uniform_ok_iff [of us k val] by simp
      then show ?thesis using p Inr Inl by (simp add: bind_def)
    next
      case b: (Inr us1)
      then have k: "k \<in> fst ` set us \<or> k \<in> set Object_prototype"
        using bind_uniform_ok_iff [of us k val] by blast
      have dom: "fst ` set us1 = fst ` set us" by (rule bind_uniform_names [OF b])
      show ?thesis
        using p Inr b k Cons.IH [of us1] dom by (simp add: bind_def)
    qed
  qed
qed

text \<open>A parameter leaves the slots of the other names as they were.\<close>

lemma bind_uniform_other:
  "bind_uniform us k val = Inr us' \<Longrightarrow> k' \<noteq> k \<Longrightarrow> map_of us' k' = map_of us k'"
  by (auto simp: bind_uniform_def update_conv' split: if_splits)

lemma params_loop_keeps:
  "params_loop ps us = Inr us' \<Longrightarrow> k \<notin> fst ` set ps \<Longrightarrow> map_of us' k = map_of us k"
proof (induction ps arbitrary: us)
  case Nil
  then show ?case by simp
next
  case (Cons p ps)
  obtain k1 v1 where p: "p = (k1, v1)" by (cases p)
  from Cons.prems(1) p obtain val us1 where
    v: "build_value v1 = Inr val" and b: "bind_uniform us k1 val = Inr us1"
    and r: "params_loop ps us1 = Inr us'"
    by (auto simp: bind_def split: sum.splits)
  from Cons.prems(2) p have ne: "k \<noteq> k1" and nin: "k \<notin> fst ` set ps" by auto
  from Cons.IH [OF r nin] bind_uniform_other [OF b ne] show ?case by simp
qed

text \<open>A parameter whose name is a slot leaves its value in the slot.\<close>

lemma params_loop_binds:
  "params_loop ps us = Inr us' \<Longrightarrow> distinct (map fst ps) \<Longrightarrow> (k, v) \<in> set ps
   \<Longrightarrow> map_of us k \<noteq> None \<Longrightarrow> build_value v = Inr val
   \<Longrightarrow> map_of us' k = Some val"
proof (induction ps arbitrary: us)
  case Nil
  then show ?case by simp
next
  case (Cons p ps)
  obtain k1 v1 where p: "p = (k1, v1)" by (cases p)
  from Cons.prems(1) p obtain val1 us1 where
    v: "build_value v1 = Inr val1" and b: "bind_uniform us k1 val1 = Inr us1"
    and r: "params_loop ps us1 = Inr us'"
    by (auto simp: bind_def split: sum.splits)
  from Cons.prems(2) p have d: "distinct (map fst ps)" and n1: "k1 \<notin> fst ` set ps" by auto
  show ?case
  proof (cases "(k, v) = (k1, v1)")
    case True
    then have "val1 = val" using v Cons.prems(5) by simp
    moreover have "us1 = AList.update k val1 us"
      using b True Cons.prems(4) by (simp add: bind_uniform_def)
    ultimately have "map_of us1 k = Some val" by (simp add: update_conv')
    moreover have "map_of us' k = map_of us1 k"
      using params_loop_keeps [OF r] n1 True by simp
    ultimately show ?thesis by simp
  next
    case False
    with Cons.prems(3) p have m: "(k, v) \<in> set ps" by auto
    then have "k \<in> fst ` set ps" by force
    with n1 have ne: "k \<noteq> k1" by auto
    have "map_of us1 k \<noteq> None"
      using bind_uniform_other [OF b ne] Cons.prems(4) by simp
    from Cons.IH [OF r d m this Cons.prems(5)] show ?thesis .
  qed
qed

lemma compile_pass_fields:
  "compile_pass shader f = Inr pass \<Longrightarrow> pass_uid pass = fx_uid f \<and> pass_type pass = fx_type f"
  by (auto simp: compile_pass_def bind_def split: option.splits sum.splits)

text \<open>Descriptors the catalog lacks do not change the outcome.\<close>

lemma passes_loop_skip:
  "snd (passes_loop THREE fs ws acc)
     = snd (passes_loop THREE (filter (\<lambda>f. THREE (fx_type f) \<noteq> None) fs) ws' acc)"
proof (induction fs arbitrary: ws ws' acc)
  case Nil
  show ?case by simp
next
  case (Cons f fs)
  show ?case
  proof (cases "THREE (fx_type f)")
    case None
    then show ?thesis
      using Cons.IH [where ws = "ws @ [warning f]" and ws' = ws' and acc = acc] by simp
  next
    case (Some shader)
    then show ?thesis using Cons.IH by (cases "compile_pass shader f") simp_all
  qed
qed

lemma passes_loop_all_compile:
  assumes "\<forall>f\<in>set fs. \<forall>shader. THREE (fx_type f) = Some shader \<longrightarrow>
             (\<exists>pass. compile_pass shader f = Inr pass)"
  shows "passes_loop THREE fs ws acc =
    (ws @ map warning (filter (\<lambda>f. THREE (fx_type f) = None) fs),
     Inr (acc @ List.map_filter (compiled THREE) fs))"
  using assms
proof (induction fs arbitrary: ws acc)
  case Nil
  show ?case by (simp add: List.map_filter_simps)
next
  case (Cons f fs)
  show ?case
  proof (cases "THREE (fx_type f)")
    case None
    then show ?thesis using Cons by (simp add: List.map_filter_simps compiled_def)
  next
    case (Some shader)
    with Cons.prems obtain pass where "compile_pass shader f = Inr pass" by auto
    then show ?thesis using Some Cons by (simp add: List.map_filter_simps compiled_def)
  qed
qed

lemma map_filter_compiled_uid:
  assumes "\<forall>f\<in>set fs. \<forall>shader. THREE (fx_type f) = Some shader \<longrightarrow>
             (\<exists>pass. compile_pass shader f = Inr pass)"
  shows "map pass_uid (List.map_filter (compiled THREE) fs)
     = map fx_uid (filter (\<lambda>f. THREE (fx_type f) \<noteq> None) fs)"
  using assms
proof (induction fs)
  case Nil
  show ?case by (simp add: List.map_filter_simps)
next
  case (Cons f fs)
  show ?case
  proof (cases "THREE (fx_type f)")
    case None
    then show ?thesis using Cons by (simp add: List.map_filter_simps compiled_def)
  next
    case (Some shader)
    with Cons.prems obtain pass where p: "compile_pass shader f = Inr pass" by auto
    then show ?thesis using Some Cons compile_pass_fields [OF p]
      by (simp add: List.map_filter_simps compiled_def)
  qed
qed


text \<open>
  C7: an absent, null or empty descriptor sequence compiles to the empty sequence with no
  warning and no error. A descriptor whose type the catalog lacks is skipped: it has no
  influence on the outcome of compiling the sequence. When every descriptor the catalog
  has compiles, the result is the stages of those descriptors in input order, as many as
  the input has descriptors less the skipped ones, and one warning was logged for each
  skipped descriptor.
\<close>

theorem unknown_effect_skipped:
  "parseShaderPasses THREE Undefined = ([], Inr [])
   \<and> parseShaderPasses THREE Null = ([], Inr [])
   \<and> parseShaderPasses THREE (Ref []) = ([], Inr [])
   \<and> snd (parseShaderPasses THREE (Ref fs))
       = snd (parseShaderPasses THREE (Ref (filter (\<lambda>f. THREE (fx_type f) \<noteq> None) fs)))
   \<and> ((\<forall>f\<in>set fs. \<forall>shader. THREE (fx_type f) = Some shader \<longrightarrow>
          (\<exists>pass. compile_pass shader f = Inr pass)) \<longrightarrow>
       (\<exists>passes.
          parseShaderPasses THREE (Ref fs)
            = (map warning (filter (\<lambda>f. THREE (fx_type f) = None) fs), Inr passes)
          \<and> passes = List.map_filter (compiled THREE) fs
          \<and> map pass_uid passes = map fx_uid (filter (\<lambda>f. THREE (fx_type f) \<noteq> None) fs)
          \<and> length passes = length fs - length (filter (\<lambda>f. THREE (fx_type f) = None) fs)))"
proof -
  have skip: "snd (parseShaderPasses THREE (Ref fs))
       = snd (parseShaderPasses THREE (Ref (filter (\<lambda>f. THREE (fx_type f) \<noteq> None) fs)))"
    using passes_loop_skip [where THREE = THREE and fs = fs and ws = "[]" and ws' = "[]"
        and acc = "[]"]
    by (cases "filter (\<lambda>f. THREE (fx_type f) \<noteq> None) fs = []")
       (auto simp: parseShaderPasses_def)
  have res: "\<exists>passes.
          parseShaderPasses THREE (Ref fs)
            = (map warning (filter (\<lambda>f. THREE (fx_type f) = None) fs), Inr passes)
          \<and> passes = List.map_filter (compiled THREE) fs
          \<and> map pass_uid passes = map fx_uid (filter (\<lambda>f. THREE (fx_type f) \<noteq> None) fs)
          \<and> length passes = length fs - length (filter (\<lambda>f. THREE (fx_type f) = None) fs)"
    if h: "\<forall>f\<in>set fs. \<forall>shader. THREE (fx_type f) = Some shader \<longrightarrow>
          (\<exists>pass. compile_pass shader f = Inr pass)"
  proof -
    have 1: "parseShaderPasses THREE (Ref fs)
        = (map warning (filter (\<lambda>f. THREE (fx_type f) = None) fs),
           Inr (List.map_filter (compiled THREE) fs))"
      using passes_loop_all_compile [OF h, of "[]" "[]"]
      by (cases fs) (simp_all add: parseShaderPasses_def List.map_filter_simps)
    have 2: "map pass_uid (List.map_filter (compiled THREE) fs)
        = map fx_uid (filter (\<lambda>f. THREE (fx_type f) \<noteq> None) fs)"
      by (rule map_filter_compiled_uid [OF h])
    have "length (List.map_filter (compiled THREE) fs)
        = length (filter (\<lambda>f. THREE (fx_type f) \<noteq> None) fs)"
      using arg_cong [OF 2, of length] by (simp del: not_None_eq)
    moreover have "length (filter (\<lambda>f. THREE (fx_type f) = None) fs)
        + length (filter (\<lambda>f. THREE (fx_type f) \<noteq> None) fs) = length fs"
      by (rule sum_length_filter_compl)
    ultimately have 3: "length (List.map_filter (compiled THREE) fs)
        = length fs - length (filter (\<lambda>f. THREE (fx_type f) = None) fs)"
      by linarith
    from 1 2 3 show ?thesis by blast
  qed
  have nil: "parseShaderPasses THREE Undefined = ([], Inr [])"
    "parseShaderPasses THREE Null = ([], Inr [])"
    "parseShaderPasses THREE (Ref []) = ([], Inr [])"
    by (simp_all add: parseShaderPasses_def)
  from nil skip res show ?thesis by blast
qed

text \<open>
  The witness: of three descriptors the second names a shader the catalog lacks. The
  result has the stages of the first and of the third, in that order, and one warning.
\<close>

theorem unknown_effect_skipped_witness:
  "\<exists>passes.
     parseShaderPasses catalog0 (Ref [fx_vignette, fx_unknown, fx_red])
       = ([''Unknown image effect (NoSuchShader)''], Inr passes)
     \<and> map pass_uid passes = [JStr ''fx-1'', JStr ''fx-0'']
     \<and> length passes = 2"
proof -
  let ?fs = "[fx_vignette, fx_unknown, fx_red]"
  have t: "catalog0 (fx_type fx_vignette) = Some (Some [(''offset'', Raw (JNum 1)), (''darkness'', Raw (JNum 1))])"
    "catalog0 (fx_type fx_unknown) = None"
    "catalog0 (fx_type fx_red) = Some (Some [(''tDiffuse'', Raw JNull), (''color'', Raw JNull)])"
    by (simp_all add: catalog0_def fx_vignette_def fx_unknown_def fx_red_def)
  have c: "\<exists>pass. compile_pass (Some [(''offset'', Raw (JNum 1)), (''darkness'', Raw (JNum 1))]) fx_vignette = Inr pass"
    "\<exists>pass. compile_pass (Some [(''tDiffuse'', Raw JNull), (''color'', Raw JNull)]) fx_red = Inr pass"
    by (simp_all add: fx_defs fx_vignette_def fx_red_def)
  have h: "\<forall>f\<in>set ?fs. \<forall>shader. catalog0 (fx_type f) = Some shader \<longrightarrow>
          (\<exists>pass. compile_pass shader f = Inr pass)"
    using t c by simp
  have w: "map warning (filter (\<lambda>f. catalog0 (fx_type f) = None) ?fs)
      = [''Unknown image effect (NoSuchShader)'']"
    using t by (simp add: warning_def fx_unknown_def)
  have u: "map fx_uid (filter (\<lambda>f. catalog0 (fx_type f) \<noteq> None) ?fs)
      = [JStr ''fx-1'', JStr ''fx-0'']"
    using t by (simp add: fx_vignette_def fx_red_def)
  have l: "length ?fs - length (filter (\<lambda>f. catalog0 (fx_type f) = None) ?fs) = 2"
    using t by simp
  from unknown_effect_skipped [of catalog0 ?fs] h
  obtain passes where
    p1: "parseShaderPasses catalog0 (Ref ?fs)
       = (map warning (filter (\<lambda>f. catalog0 (fx_type f) = None) ?fs), Inr passes)" and
    p2: "map pass_uid passes = map fx_uid (filter (\<lambda>f. catalog0 (fx_type f) \<noteq> None) ?fs)" and
    p3: "length passes = length ?fs - length (filter (\<lambda>f. catalog0 (fx_type f) = None) ?fs)"
    by blast
  have q1: "parseShaderPasses catalog0 (Ref ?fs)
       = ([''Unknown image effect (NoSuchShader)''], Inr passes)"
    using p1 w by (simp only:)
  have q2: "map pass_uid passes = [JStr ''fx-1'', JStr ''fx-0'']"
    using p2 u by (simp only:)
  have q3: "length passes = 2"
    using p3 l by (simp only:)
  show ?thesis by (rule exI [of _ passes]) (intro conjI q1 q2 q3)
qed

text \<open>
  C9, as stated, fails. A parameter whose value is a structured spec object with a type
  tag outside the three is skipped when the stage exposes no uniforms (the test of line
  107): the stage is returned with nothing bound. The compilation raises a \<open>TypeError\<close>
  when the stage has no uniform slot of the parameter's name (line 145), and when the
  spec object has an own property \<open>hasOwnProperty\<close> (line 115).
\<close>

theorem unknown_type_tag_skipped_or_refused:
  "parseShaderPasses catalog0 (Ref [fx_clock])
     = ([], Inr [\<lparr>pass_uid = JStr ''fx-5'', pass_type = ''Clock'', pass_uniforms = None\<rparr>])
   \<and> parseShaderPasses catalog0 (Ref [fx_spec_no_slot]) = ([], Inl TypeError)
   \<and> parseShaderPasses catalog0 (Ref [fx_shadow]) = ([], Inl TypeError)"
  by (simp add: fx_defs catalog0_def fx_clock_def fx_spec_no_slot_def fx_shadow_def
      Object_prototype_def)

text \<open>
  C9, amended: for every descriptor whose type the catalog has and whose stage exposes
  uniforms, a parameter whose value is an object with own properties \<open>type\<close> and \<open>args\<close>
  (and no own property \<open>hasOwnProperty\<close>), whose type tag is none of \<open>THREE.Color\<close>,
  \<open>THREE.Vector2\<close> and \<open>THREE.Vector3\<close>, and whose name is a uniform slot of the stage,
  raises no error and is not skipped. Its value is the object itself; the loop writes it
  into the slot and goes on with the next parameter; and when the other parameters of
  the descriptor bind, compiling the descriptor returns the stage with that slot holding
  the raw spec object, alone or in any sequence whose descriptors compile.
\<close>

theorem unknown_type_tag_binds_raw:
  assumes cat: "THREE (fx_type f) = Some (Some us)"
    and mem: "(param, JObj fs) \<in> set (fx_params f)"
    and dist: "distinct (map fst (fx_params f))"
    and own: "hasOwnProperty fs ''type''" "hasOwnProperty fs ''args''"
      "\<not> hasOwnProperty fs ''hasOwnProperty''"
    and tag: "getprop fs ''type'' \<noteq> JStr ''THREE.Color''"
      "getprop fs ''type'' \<noteq> JStr ''THREE.Vector2''"
      "getprop fs ''type'' \<noteq> JStr ''THREE.Vector3''"
    and slot: "map_of us param \<noteq> None"
    and rest: "\<forall>(k, v) \<in> set (fx_params f). k \<noteq> param \<longrightarrow>
        (map_of us k \<noteq> None \<or> k \<in> set Object_prototype) \<and> (\<exists>val. build_value v = Inr val)"
  shows "build_value (JObj fs) = Inr (Raw (JObj fs))
    \<and> (\<forall>us1 ps. map_of us1 param \<noteq> None \<longrightarrow>
          params_loop ((param, JObj fs) # ps) us1
            = params_loop ps (AList.update param (Raw (JObj fs)) us1))
    \<and> (\<exists>us'. map_of us' param = Some (Raw (JObj fs))
          \<and> compile_pass (Some us) f
              = Inr \<lparr>pass_uid = fx_uid f, pass_type = fx_type f, pass_uniforms = Some us'\<rparr>
          \<and> parseShaderPasses THREE (Ref [f])
              = ([], Inr [\<lparr>pass_uid = fx_uid f, pass_type = fx_type f,
                           pass_uniforms = Some us'\<rparr>])
          \<and> (\<forall>fxs. f \<in> set fxs
                \<and> (\<forall>g\<in>set fxs. \<forall>shader. THREE (fx_type g) = Some shader \<longrightarrow>
                      (\<exists>pass. compile_pass shader g = Inr pass))
                \<longrightarrow> (\<exists>passes. snd (parseShaderPasses THREE (Ref fxs)) = Inr passes
                      \<and> \<lparr>pass_uid = fx_uid f, pass_type = fx_type f,
                          pass_uniforms = Some us'\<rparr> \<in> set passes)))"
proof -
  have bv: "build_value (JObj fs) = Inr (Raw (JObj fs))"
    using own tag by (simp add: build_value_def)
  have step: "params_loop ((param, JObj fs) # ps) us1
            = params_loop ps (AList.update param (Raw (JObj fs)) us1)"
    if "map_of us1 param \<noteq> None" for us1 ps
    using that bv by (simp add: bind_def bind_uniform_def)
  have ok: "(k \<in> fst ` set us \<or> k \<in> set Object_prototype) \<and> (\<exists>val. build_value v = Inr val)"
    if kv: "(k, v) \<in> set (fx_params f)" for k v
  proof (cases "k = param")
    case True
    with kv mem dist have "v = JObj fs" by (metis eq_key_imp_eq_value)
    with True bv slot show ?thesis by (simp add: map_of_eq_None_iff)
  next
    case False
    with rest kv show ?thesis by (auto simp: map_of_eq_None_iff)
  qed
  then have "\<exists>us'. params_loop (fx_params f) us = Inr us'"
    unfolding params_loop_ok_iff by blast
  then obtain us' where pl: "params_loop (fx_params f) us = Inr us'" ..
  let ?pass = "\<lparr>pass_uid = fx_uid f, pass_type = fx_type f, pass_uniforms = Some us'\<rparr>"
  have b: "map_of us' param = Some (Raw (JObj fs))"
    by (rule params_loop_binds [OF pl dist mem slot bv])
  have c: "compile_pass (Some us) f = Inr ?pass"
    using pl by (simp add: compile_pass_def bind_def)
  have one: "parseShaderPasses THREE (Ref [f]) = ([], Inr [?pass])"
    using cat c by (simp add: parseShaderPasses_def)
  have many: "\<exists>passes. snd (parseShaderPasses THREE (Ref fxs)) = Inr passes \<and> ?pass \<in> set passes"
    if f: "f \<in> set fxs"
      and h: "\<forall>g\<in>set fxs. \<forall>shader. THREE (fx_type g) = Some shader \<longrightarrow>
                (\<exists>pass. compile_pass shader g = Inr pass)" for fxs
  proof -
    from f have ne: "fxs \<noteq> []" by auto
    have r: "snd (parseShaderPasses THREE (Ref fxs)) = Inr (List.map_filter (compiled THREE) fxs)"
      using passes_loop_all_compile [OF h, of "[]" "[]"] ne
      by (simp add: parseShaderPasses_def)
    have "compiled THREE f = Some ?pass" using cat c by (simp add: compiled_def)
    with f have "?pass \<in> set (List.map_filter (compiled THREE) fxs)"
      by (force simp: List.map_filter_def image_iff)
    with r show ?thesis by blast
  qed
  from bv step b c one many show ?thesis by blast
qed

text \<open>
  The witness: the vignette descriptor binds \<open>offset\<close> and then \<open>darkness\<close>, whose value is
  a spec object with the tag \<open>Texture\<close>; the stage comes back with the object in the slot.
\<close>

theorem unknown_type_tag_witness:
  "build_value (JObj [(''type'', JStr ''Texture''), (''args'', JArr [])])
     = Inr (Raw (JObj [(''type'', JStr ''Texture''), (''args'', JArr [])]))
   \<and> (\<exists>us'. map_of us' ''darkness''
               = Some (Raw (JObj [(''type'', JStr ''Texture''), (''args'', JArr [])]))
         \<and> parseShaderPasses catalog0 (Ref [fx_vignette])
             = ([], Inr [\<lparr>pass_uid = JStr ''fx-1'', pass_type = ''VignetteShader'',
                          pass_uniforms = Some us'\<rparr>]))"
proof -
  let ?fs = "[(''type'', JStr ''Texture''), (''args'', JArr [])]"
  let ?us = "[(''offset'', Raw (JNum 1)), (''darkness'', Raw (JNum 1))]"
  have cat: "catalog0 (fx_type fx_vignette) = Some (Some ?us)"
    by (simp add: catalog0_def fx_vignette_def)
  have mem: "(''darkness'', JObj ?fs) \<in> set (fx_params fx_vignette)"
    by (simp add: fx_vignette_def)
  have dist: "distinct (map fst (fx_params fx_vignette))"
    by (simp add: fx_vignette_def)
  have own: "hasOwnProperty ?fs ''type''" "hasOwnProperty ?fs ''args''"
    "\<not> hasOwnProperty ?fs ''hasOwnProperty''"
    by (simp_all add: hasOwnProperty_def)
  have tag: "getprop ?fs ''type'' \<noteq> JStr ''THREE.Color''"
    "getprop ?fs ''type'' \<noteq> JStr ''THREE.Vector2''"
    "getprop ?fs ''type'' \<noteq> JStr ''THREE.Vector3''"
    by (simp_all add: getprop_def)
  have slot: "map_of ?us ''darkness'' \<noteq> None" by simp
  have rest: "\<forall>(k, v) \<in> set (fx_params fx_vignette). k \<noteq> ''darkness'' \<longrightarrow>
        (map_of ?us k \<noteq> None \<or> k \<in> set Object_prototype) \<and> (\<exists>val. build_value v = Inr val)"
    by (simp add: fx_vignette_def build_value_def)
  have u: "fx_uid fx_vignette = JStr ''fx-1''" "fx_type fx_vignette = ''VignetteShader''"
    by (simp_all add: fx_vignette_def)
  from unknown_type_tag_binds_raw [where THREE = catalog0 and f = fx_vignette and us = ?us
      and param = "''darkness''" and fs = ?fs, OF cat mem dist own tag slot rest]
  obtain us' where
    a: "build_value (JObj ?fs) = Inr (Raw (JObj ?fs))" and
    b: "map_of us' ''darkness'' = Some (Raw (JObj ?fs))" and
    c: "parseShaderPasses catalog0 (Ref [fx_vignette])
         = ([], Inr [\<lparr>pass_uid = fx_uid fx_vignette, pass_type = fx_type fx_vignette,
                      pass_uniforms = Some us'\<rparr>])"
    by blast
  have c': "parseShaderPasses catalog0 (Ref [fx_vignette])
         = ([], Inr [\<lparr>pass_uid = JStr ''fx-1'', pass_type = ''VignetteShader'',
                      pass_uniforms = Some us'\<rparr>])"
    using c unfolding u .
  show ?thesis by (rule conjI [OF a]) (rule exI [of _ us'], intro conjI b c')
qed




end
